theory Spec2Isabelle
  imports Main
begin

section \<open>Project event log: data model\<close>

text \<open>
  Shallow embedding of \<^verbatim>\<open>syft/service/project/project_service.py\<close>.
  Verify keys and UIDs are opaque values compared by equality; they are modelled as
  strings. Exceptions are values of the type \<open>error\<close>; a raising function returns
  \<open>Inl\<close> of the exception.
\<close>

type_synonym key = string
type_synonym uid = string

datatype error =
    SyftException string
  | NotFoundException string
  | ValueError string
  | EOFError
  | AttributeError string

text \<open>
  A \<^verbatim>\<open>ProjectEvent\<close>. The only subclass the service distinguishes is
  \<^verbatim>\<open>ProjectRequest\<close>, whose \<^verbatim>\<open>linked_request.server_uid\<close> is the
  argument of the constructor below. \<open>seq_no\<close> is Python's \<^verbatim>\<open>int | None\<close>;
  \<open>event_str\<close> is the rendering of the event used in an f-string.
\<close>

datatype event_kind = ProjectRequest uid | ProjectMessage

record project_event =
  event_id :: uid
  project_id :: uid
  seq_no :: "int option"
  event_kind :: event_kind
  event_str :: string

text \<open>A \<^verbatim>\<open>ServerIdentity\<close>: the leader and the members of a project.\<close>

record server_identity =
  verify_key :: key
  name :: string
  short_id :: string

record project =
  project_uid :: uid
  project_name :: string
  state_sync_leader :: server_identity
  events :: "project_event list"
  event_id_hashmap :: "uid \<rightharpoonup> project_event"
  members :: "server_identity list"
  has_permission :: "key \<Rightarrow> bool"

text \<open>
  The collaborators reached through \<^verbatim>\<open>context.server\<close>: the peer table of the
  network service and the \<^verbatim>\<open>send\<close> method of the notification service. A peer's
  \<open>client_with_context\<close> is \<open>None\<close> when a remote client can be created and
  \<open>Some err\<close> when it cannot; \<open>notification_send\<close> answers \<open>Some msg\<close> for a
  \<^verbatim>\<open>SyftError\<close> and \<open>None\<close> otherwise.
\<close>

record server_peer =
  peer_id :: uid
  client_with_context :: "string option"

record create_notification =
  subject :: string
  from_user_verify_key :: key
  to_user_verify_key :: key
  linked_obj :: uid

record server =
  server_verify_key :: key
  server_id :: uid
  network_peers :: "key \<rightharpoonup> server_peer"
  notification_send :: "create_notification \<Rightarrow> string option"

record authed_service_context =
  credentials :: key
  server :: server

text \<open>
  The state the service reads and writes: the project stash (a key-value store indexed by
  project id), the notifications handed to the notification service, and the
  \<^verbatim>\<open>add_event\<close> calls made on remote clients, in the order they were made.
  Every operation returns its result together with the state it leaves behind, also when
  it raises.
\<close>

record service_state =
  stash :: "uid \<rightharpoonup> project"
  notification_calls :: "create_notification list"
  remote_add_event_calls :: "(uid \<times> project_event) list"

section \<open>Project event log: operations\<close>

text \<open>
  \<^verbatim>\<open>stash.get_by_uid(...).unwrap()\<close> and \<^verbatim>\<open>stash.update(...).unwrap()\<close>:
  the stash is a map, a missing project is \<^verbatim>\<open>NotFoundException\<close>.
\<close>

definition stash_get_by_uid :: "service_state \<Rightarrow> uid \<Rightarrow> error + project" where
  "stash_get_by_uid s u =
     (case stash s u of
        None \<Rightarrow> Inl (NotFoundException u)
      | Some p \<Rightarrow> Inr p)"

definition stash_update :: "project \<Rightarrow> service_state \<Rightarrow> (error + project) \<times> service_state" where
  "stash_update p s =
     (case stash s (project_uid p) of
        None \<Rightarrow> (Inl (NotFoundException (project_uid p)), s)
      | Some _ \<Rightarrow> (Inr p, s\<lparr>stash := (stash s)(project_uid p \<mapsto> p)\<rparr>))"

text \<open>
  The methods decorated with \<^verbatim>\<open>@as_result(SyftException)\<close> return a result
  object: the value they return, or the exception they raise, as a value. A caller sees
  the exception only if it calls \<^verbatim>\<open>.unwrap()\<close> on the result, as the call sites
  \<^verbatim>\<open>self.validate_project_leader(context, project).unwrap(...)\<close> and
  \<^verbatim>\<open>self.project_exists(context, project).unwrap()\<close> do.
  \<^verbatim>\<open>.unwrap(public_message=m)\<close> re-raises a \<^verbatim>\<open>SyftException\<close> with the
  public message replaced by \<open>m\<close>.
\<close>

definition unwrap_public_message :: "string \<Rightarrow> error + 'a \<Rightarrow> error + 'a" where
  "unwrap_public_message m r =
     (case r of
        Inl (SyftException _) \<Rightarrow> Inl (SyftException m)
      | Inl e \<Rightarrow> Inl e
      | Inr v \<Rightarrow> Inr v)"

definition validate_project_leader :: "authed_service_context \<Rightarrow> project \<Rightarrow> error + unit" where
  "validate_project_leader context project =
     (if verify_key (state_sync_leader project) \<noteq> server_verify_key (server context)
      then Inl (SyftException ''Only the project leader can do this operation'')
      else Inr ())"

definition validate_user_permission_for_project ::
    "authed_service_context \<Rightarrow> project \<Rightarrow> error + unit" where
  "validate_user_permission_for_project context project =
     (if \<not> has_permission project (credentials context)
      then Inl (SyftException ''User does not have permission to sync events'')
      else Inr ())"

definition validate_project_event_seq :: "project_event \<Rightarrow> project \<Rightarrow> error + unit" where
  "validate_project_event_seq project_event project =
     (case seq_no project_event of
        None \<Rightarrow> Inl (SyftException (event_str project_event @ ''.seq_no is None''))
      | Some n \<Rightarrow>
          if n \<le> int (length (events project)) \<and> length (events project) > 0
          then Inl (SyftException ''Project events are out of sync'')
          else if n > int (length (events project)) + 1
          then Inl (SyftException ''Project events are out of order!'')
          else Inr ())"

definition is_project_leader :: "authed_service_context \<Rightarrow> project \<Rightarrow> bool" where
  "is_project_leader context project =
     (credentials context = verify_key (state_sync_leader project))"

text \<open>
  \<^verbatim>\<open>check_for_project_request\<close> is decorated with \<^verbatim>\<open>@as_result(SyftException)\<close>
  too: the \<^verbatim>\<open>SyftException\<close> it raises when the notification service answers
  with a \<^verbatim>\<open>SyftError\<close> is its returned value.
\<close>

definition check_for_project_request ::
    "project \<Rightarrow> project_event \<Rightarrow> authed_service_context \<Rightarrow> service_state
       \<Rightarrow> (error + unit) \<times> service_state" where
  "check_for_project_request project project_event context s =
     (case event_kind project_event of
        ProjectRequest request_server_uid \<Rightarrow>
          if request_server_uid = server_id (server context) then
            let message = \<lparr>subject = ''A new request has been added to the project ''
                                        @ project_name project,
                           from_user_verify_key = credentials context,
                           to_user_verify_key = server_verify_key (server context),
                           linked_obj = project_uid project\<rparr>;
                s1 = s\<lparr>notification_calls := notification_calls s @ [message]\<rparr>
            in (case notification_send (server context) message of
                  Some err \<Rightarrow> (Inl (SyftException err), s1)
                | None \<Rightarrow> (Inr (), s1))
          else (Inr (), s)
      | ProjectMessage \<Rightarrow> (Inr (), s))"

definition append_event :: "project \<Rightarrow> project_event \<Rightarrow> project" where
  "append_event project project_event =
     project\<lparr>events := events project @ [project_event],
             event_id_hashmap := (event_id_hashmap project)(event_id project_event \<mapsto> project_event)\<rparr>"

text \<open>
  \<^verbatim>\<open>add_event\<close>. The result of \<^verbatim>\<open>check_for_project_request\<close> is not
  unwrapped: only the state it leaves is used. A successful call returns the updated
  project (the \<^verbatim>\<open>value\<close> of the \<^verbatim>\<open>SyftSuccess\<close>).
\<close>

definition add_event ::
    "authed_service_context \<Rightarrow> project_event \<Rightarrow> service_state
       \<Rightarrow> (error + project) \<times> service_state" where
  "add_event context project_event s =
     (case stash_get_by_uid s (project_id project_event) of
        Inl e \<Rightarrow> (Inl e, s)
      | Inr project \<Rightarrow>
          (case unwrap_public_message
                  ''Project Events should be passed to leader by broadcast endpoint''
                  (validate_project_leader context project) of
             Inl e \<Rightarrow> (Inl e, s)
           | Inr _ \<Rightarrow>
               if \<not> is_project_leader context project
               then (Inl (SyftException ''Only the leader of the project can add events''), s)
               else
                 let project1 = append_event project project_event;
                     s1 = snd (check_for_project_request project1 project_event context s)
                 in stash_update project1 s1))"

text \<open>
  The loop of \<^verbatim>\<open>broadcast_event\<close> over \<^verbatim>\<open>project.members\<close>: every member
  other than this server is looked up in the peer table, a remote client is opened and
  \<^verbatim>\<open>add_event\<close> is called on it. A missing peer or a failed client raises.
\<close>

fun broadcast_to_members ::
    "authed_service_context \<Rightarrow> project_event \<Rightarrow> server_identity list \<Rightarrow> service_state
       \<Rightarrow> (error + unit) \<times> service_state" where
  "broadcast_to_members context project_event [] s = (Inr (), s)"
| "broadcast_to_members context project_event (member # rest) s =
     (if verify_key member \<noteq> server_verify_key (server context) then
        (case network_peers (server context) (verify_key member) of
           None \<Rightarrow>
             (Inl (SyftException (''Leader server does not have peer '' @ name member @ ''-''
                      @ short_id member @ ''. Please exchange routes with the peer.'')), s)
         | Some peer \<Rightarrow>
             (case client_with_context peer of
                Some err \<Rightarrow>
                  (Inl (SyftException (''Failed to create remote client for peer: ''
                          @ peer_id peer @ ''. Error: '' @ err)), s)
              | None \<Rightarrow>
                  broadcast_to_members context project_event rest
                    (s\<lparr>remote_add_event_calls :=
                         remote_add_event_calls s @ [(peer_id peer, project_event)]\<rparr>)))
      else broadcast_to_members context project_event rest s)"

text \<open>
  \<^verbatim>\<open>broadcast_event\<close>. The leader check and the sequence check are unwrapped; the
  results of \<^verbatim>\<open>validate_user_permission_for_project\<close> and of
  \<^verbatim>\<open>check_for_project_request\<close> are not.
\<close>

definition broadcast_event ::
    "authed_service_context \<Rightarrow> project_event \<Rightarrow> service_state
       \<Rightarrow> (error + project) \<times> service_state" where
  "broadcast_event context project_event s =
     (case stash_get_by_uid s (project_id project_event) of
        Inl e \<Rightarrow> (Inl e, s)
      | Inr project \<Rightarrow>
          (case unwrap_public_message
                  ''Only the leader of the project can broadcast events''
                  (validate_project_leader context project) of
             Inl e \<Rightarrow> (Inl e, s)
           | Inr _ \<Rightarrow>
               let unused = validate_user_permission_for_project context project in
               (case validate_project_event_seq project_event project of
                  Inl e \<Rightarrow> (Inl e, s)
                | Inr _ \<Rightarrow>
                    let project1 = append_event project project_event;
                        s1 = snd (check_for_project_request project1 project_event context s)
                    in (case broadcast_to_members context project_event (members project1) s1 of
                          (Inl e, s2) \<Rightarrow> (Inl e, s2)
                        | (Inr _, s2) \<Rightarrow> stash_update project1 s2))))"

text \<open>
  \<^verbatim>\<open>sync\<close>: the slice \<^verbatim>\<open>project.events[seq_no:]\<close> for a non-negative
  \<open>seq_no\<close>. The results of both validators are not unwrapped.
\<close>

definition sync ::
    "authed_service_context \<Rightarrow> uid \<Rightarrow> int \<Rightarrow> service_state \<Rightarrow> error + project_event list" where
  "sync context pid n s =
     (if n < 0 then Inl (SyftException ''Input seq_no should be a non negative integer'')
      else
        (case stash_get_by_uid s pid of
           Inl e \<Rightarrow> Inl e
         | Inr project \<Rightarrow>
             let unused_leader = validate_project_leader context project;
                 unused_permission = validate_user_permission_for_project context project
             in Inr (drop (nat n) (events project))))"

section \<open>State reconciliation: data model\<close>

text \<open>
  Shallow embedding of \<^verbatim>\<open>syft/client/syncing.py\<close>. The objects of a diff are
  classified the way the code classifies them: by \<^verbatim>\<open>isinstance\<close> against
  \<^verbatim>\<open>UserCode\<close> and \<^verbatim>\<open>Job\<close>, and by the answer of
  \<^verbatim>\<open>_has_private_sync_attrs()\<close>, which is the boolean each constructor carries.
\<close>

record user_code =
  user_verify_key :: key
  user_code_private :: bool

datatype syft_object = UserCode user_code | Job bool | OtherObject bool

fun has_private_sync_attrs :: "syft_object \<Rightarrow> bool" where
  "has_private_sync_attrs (UserCode c) = user_code_private c"
| "has_private_sync_attrs (Job b) = b"
| "has_private_sync_attrs (OtherObject b) = b"

text \<open>
  An \<^verbatim>\<open>ObjectDiff\<close>; \<open>object_id\<close> is \<^verbatim>\<open>str(diff.object_id)\<close>. Two diffs
  are equal when all their fields are, which is what \<^verbatim>\<open>diff in xs\<close> and
  \<^verbatim>\<open>xs.remove(diff)\<close> compare.
\<close>

record object_diff =
  object_id :: uid
  object_type :: string
  status :: string
  low_obj :: "syft_object option"
  high_obj :: "syft_object option"

record object_diff_batch =
  diffs :: "object_diff list"

record node_diff =
  hierarchies :: "object_diff_batch list"

datatype action_permission = OWNER | READ | WRITE | EXECUTE

record action_object_permission =
  permission_uid :: uid
  permission :: action_permission
  permission_credentials :: key

record sync_decision =
  diff :: object_diff
  decision :: string
  new_permissions_lowside :: "action_object_permission list"
  mockify :: bool

text \<open>
  Modelled from the spec: \<^verbatim>\<open>ResolvedSyncState\<close> and its
  \<^verbatim>\<open>add_sync_decision\<close> live in \<^verbatim>\<open>service/sync/diff_state.py\<close>, which is
  not among the sources. The spec describes an accumulator with an alias that holds the
  ordered list of decisions and is append-only.
\<close>

record resolved_sync_state =
  state_alias :: string
  sync_decisions :: "sync_decision list"

definition ResolvedSyncState :: "string \<Rightarrow> resolved_sync_state" where
  "ResolvedSyncState a = \<lparr>state_alias = a, sync_decisions = []\<rparr>"

definition add_sync_decision :: "sync_decision \<Rightarrow> resolved_sync_state \<Rightarrow> resolved_sync_state" where
  "add_sync_decision d r = r\<lparr>sync_decisions := sync_decisions r @ [d]\<rparr>"

text \<open>
  The terminal: the lines still to be read by \<^verbatim>\<open>input()\<close> and what has been
  printed so far. \<^verbatim>\<open>input()\<close> on an exhausted input raises
  \<^verbatim>\<open>EOFError\<close>. Each \<^verbatim>\<open>print\<close> of the source is one output event.
\<close>

datatype printed =
    AskLowOrHigh
  | PleaseChoose
  | BatchRepr object_diff_batch
  | DecisionSyncing object_diff_batch string
  | BlankLine
  | Rule
  | SharePreamble key
  | QuestionSharePrivateObjs "object_diff list"
  | InvalidInputNoMatch
  | InvalidInputShort
  | ConfirmationSharePrivateObj object_diff key
  | MultipleMatches

type_synonym terminal = "string list \<times> printed list"

section \<open>State reconciliation: operations\<close>

text \<open>\<^verbatim>\<open>str.lower()\<close>, on ASCII letters.\<close>

definition lower_char :: "char \<Rightarrow> char" where
  "lower_char c =
     (case map_of (zip ''ABCDEFGHIJKLMNOPQRSTUVWXYZ'' ''abcdefghijklmnopqrstuvwxyz'') c of
        Some l \<Rightarrow> l
      | None \<Rightarrow> c)"

definition lower :: "string \<Rightarrow> string" where
  "lower s = map lower_char s"

definition startswith :: "string \<Rightarrow> string \<Rightarrow> bool" where
  "startswith s p = (take (length p) s = p)"

text \<open>The \<^verbatim>\<open>while True\<close> loop of \<^verbatim>\<open>get_user_input_for_resolve\<close>.\<close>

fun get_user_input_loop :: "terminal \<Rightarrow> error + (string \<times> terminal)" where
  "get_user_input_loop ([], out) = Inl EOFError"
| "get_user_input_loop (line # inp, out) =
     (let decision = lower line in
      if decision \<in> set [''low'', ''high''] then Inr (decision, (inp, out))
      else get_user_input_loop (inp, out @ [PleaseChoose]))"

definition get_user_input_for_resolve :: "terminal \<Rightarrow> error + (string \<times> terminal)" where
  "get_user_input_for_resolve t = get_user_input_loop (fst t, snd t @ [AskLowOrHigh])"

text \<open>
  The \<^verbatim>\<open>while len(remaining_private_high_diffs)\<close> loop of
  \<^verbatim>\<open>ask_user_input_permission\<close>, with its two local lists as arguments.
\<close>

fun ask_loop ::
    "key \<Rightarrow> object_diff list \<Rightarrow> object_diff list \<Rightarrow> terminal
       \<Rightarrow> error + (object_diff list \<times> terminal)" where
  "ask_loop uvk [] to_share t = Inr (to_share, t)"
| "ask_loop uvk (r # rs) to_share ([], out) = Inl EOFError"
| "ask_loop uvk (r # rs) to_share (res # inp, out) =
     (let remaining = r # rs;
          out1 = out @ [QuestionSharePrivateObjs remaining]
      in
        if res = ''no'' then Inr (to_share, (inp, out1))
        else if length res \<ge> 3 then
          (case filter (\<lambda>d. startswith (object_id d) res) remaining of
             [] \<Rightarrow> ask_loop uvk remaining to_share (inp, out1 @ [InvalidInputNoMatch])
           | [d] \<Rightarrow>
               ask_loop uvk (remove1 d remaining) (to_share @ [d])
                 (inp, out1 @ [BlankLine, Rule, BlankLine, ConfirmationSharePrivateObj d uvk])
           | _ \<Rightarrow> Inr (to_share, (inp, out1 @ [MultipleMatches])))
        else ask_loop uvk remaining to_share (inp, out1 @ [InvalidInputShort]))"

definition ask_user_input_permission ::
    "user_code option \<Rightarrow> object_diff list \<Rightarrow> terminal
       \<Rightarrow> error + (object_diff list \<times> terminal)" where
  "ask_user_input_permission user_code_opt all_private_high_diffs t =
     (if length all_private_high_diffs = 0 then Inr ([], t)
      else
        (case user_code_opt of
           None \<Rightarrow> Inl (AttributeError ''user_verify_key'')
         | Some c \<Rightarrow>
             ask_loop (user_verify_key c) all_private_high_diffs []
               (fst t, snd t @ [SharePreamble (user_verify_key c)])))"

text \<open>The two list comprehensions at the head of \<^verbatim>\<open>get_sync_decisions_for_batch_items\<close>.\<close>

definition is_private_high_diff :: "object_diff \<Rightarrow> bool" where
  "is_private_high_diff d =
     (case high_obj d of None \<Rightarrow> False | Some obj \<Rightarrow> has_private_sync_attrs obj)"

definition unpublished_private_high_diffs :: "object_diff_batch \<Rightarrow> object_diff list" where
  "unpublished_private_high_diffs batch_diff = filter is_private_high_diff (diffs batch_diff)"

definition user_codes_high :: "object_diff_batch \<Rightarrow> user_code list" where
  "user_codes_high batch_diff =
     List.map_filter
       (\<lambda>d. case high_obj d of Some (UserCode c) \<Rightarrow> Some c | _ \<Rightarrow> None)
       (diffs batch_diff)"

definition is_job :: "object_diff \<Rightarrow> bool" where
  "is_job d = (case high_obj d of Some (Job _) \<Rightarrow> True | _ \<Rightarrow> False)"

definition read_permission :: "object_diff \<Rightarrow> user_code \<Rightarrow> action_object_permission" where
  "read_permission d c =
     \<lparr>permission_uid = object_id d, permission = READ,
      permission_credentials = user_verify_key c\<rparr>"

text \<open>The body of the second \<^verbatim>\<open>for diff in batch_diff.diffs\<close> loop, for one diff.\<close>

definition decide_diff ::
    "user_code option \<Rightarrow> object_diff list \<Rightarrow> object_diff list \<Rightarrow> string \<Rightarrow> object_diff
       \<Rightarrow> error + sync_decision" where
  "decide_diff user_code_high unpublished to_share dec d =
     (let is_unpublished_private_diff = (d \<in> set unpublished);
          has_share_decision = (d \<in> set to_share)
      in
        if is_job d then
          (case user_code_high of
             None \<Rightarrow> Inl (ValueError ''Job without user code'')
           | Some c \<Rightarrow>
               Inr \<lparr>diff = d, decision = dec,
                    new_permissions_lowside = [read_permission d c], mockify = False\<rparr>)
        else if is_unpublished_private_diff \<and> has_share_decision then
          (case user_code_high of
             None \<Rightarrow> Inl (AttributeError ''user_verify_key'')
           | Some c \<Rightarrow>
               Inr \<lparr>diff = d, decision = dec,
                    new_permissions_lowside = [read_permission d c], mockify = False\<rparr>)
        else if is_unpublished_private_diff \<and> \<not> has_share_decision then
          Inr \<lparr>diff = d, decision = dec, new_permissions_lowside = [], mockify = True\<rparr>
        else
          Inr \<lparr>diff = d, decision = dec, new_permissions_lowside = [], mockify = False\<rparr>)"

fun decide_loop ::
    "user_code option \<Rightarrow> object_diff list \<Rightarrow> object_diff list \<Rightarrow> string
       \<Rightarrow> object_diff list \<Rightarrow> sync_decision list \<Rightarrow> error + sync_decision list" where
  "decide_loop user_code_high unpublished to_share dec [] acc = Inr acc"
| "decide_loop user_code_high unpublished to_share dec (d # ds) acc =
     (case decide_diff user_code_high unpublished to_share dec d of
        Inl e \<Rightarrow> Inl e
      | Inr sd \<Rightarrow> decide_loop user_code_high unpublished to_share dec ds (acc @ [sd]))"

definition get_sync_decisions_for_batch_items ::
    "object_diff_batch \<Rightarrow> string \<Rightarrow> bool \<Rightarrow> terminal
       \<Rightarrow> error + (sync_decision list \<times> terminal)" where
  "get_sync_decisions_for_batch_items batch_diff dec share_private_objects t =
     (let unpublished = unpublished_private_high_diffs batch_diff;
          codes = user_codes_high batch_diff
      in
        if length codes > 1 then Inl (ValueError ''too many user codes'')
        else
          let user_code_high = (case codes of [] \<Rightarrow> None | c # _ \<Rightarrow> Some c) in
          if user_code_high = None \<and> length unpublished \<noteq> 0
          then Inl (ValueError ''Found unpublished private objects without user code'')
          else
            (case (if share_private_objects then Inr (unpublished, t)
                   else ask_user_input_permission user_code_high unpublished t) of
               Inl e \<Rightarrow> Inl e
             | Inr (to_share, t1) \<Rightarrow>
                 (case decide_loop user_code_high unpublished to_share dec
                         (diffs batch_diff) [] of
                    Inl e \<Rightarrow> Inl e
                  | Inr sds \<Rightarrow> Inr (sds, t1))))"

text \<open>
  \<^verbatim>\<open>resolve\<close>: the loop over \<^verbatim>\<open>state.hierarchies\<close>, with the two resolved
  states and the terminal as loop state.
\<close>

definition all_same :: "object_diff_batch \<Rightarrow> bool" where
  "all_same batch_diff = list_all (\<lambda>d. status d = ''SAME'') (diffs batch_diff)"

definition add_sync_decisions ::
    "sync_decision list \<Rightarrow> resolved_sync_state \<Rightarrow> resolved_sync_state" where
  "add_sync_decisions sds r = foldl (\<lambda>acc sd. add_sync_decision sd acc) r sds"

fun resolve_loop ::
    "string option \<Rightarrow> bool \<Rightarrow> object_diff_batch list
       \<Rightarrow> resolved_sync_state \<Rightarrow> resolved_sync_state \<Rightarrow> terminal
       \<Rightarrow> error + (resolved_sync_state \<times> resolved_sync_state \<times> terminal)" where
  "resolve_loop dec share [] low high t = Inr (low, high, t)"
| "resolve_loop dec share (batch_diff # rest) low high t =
     (if all_same batch_diff then resolve_loop dec share rest low high t
      else
        let t1 = (fst t, snd t @ [BatchRepr batch_diff]) in
        (case (case dec of None \<Rightarrow> get_user_input_for_resolve t1
                         | Some d \<Rightarrow> Inr (d, t1)) of
           Inl e \<Rightarrow> Inl e
         | Inr (batch_decision, t2) \<Rightarrow>
             (case get_sync_decisions_for_batch_items batch_diff batch_decision share t2 of
                Inl e \<Rightarrow> Inl e
              | Inr (sds, t3) \<Rightarrow>
                  resolve_loop dec share rest
                    (add_sync_decisions sds low) (add_sync_decisions sds high)
                    (fst t3, snd t3 @ [DecisionSyncing batch_diff batch_decision,
                                       BlankLine, Rule, BlankLine]))))"

definition resolve ::
    "node_diff \<Rightarrow> string option \<Rightarrow> bool \<Rightarrow> terminal
       \<Rightarrow> error + (resolved_sync_state \<times> resolved_sync_state \<times> terminal)" where
  "resolve state dec share_private_objects t =
     resolve_loop dec share_private_objects (hierarchies state)
       (ResolvedSyncState ''low'') (ResolvedSyncState ''high'') t"

section \<open>Concrete inputs\<close>

text \<open>
  A project led by the server with key \<open>leader-key\<close>, whose permission predicate
  admits the user \<open>scientist-key\<close> only; events; two servers; three calling contexts.
\<close>

definition leader_identity :: server_identity where
  "leader_identity = \<lparr>verify_key = ''leader-key'', name = ''leader'', short_id = ''aaaa''\<rparr>"

definition empty_project :: project where
  "empty_project =
     \<lparr>project_uid = ''project-1'', project_name = ''demo'',
      state_sync_leader = leader_identity, events = [],
      event_id_hashmap = Map.empty, members = [leader_identity],
      has_permission = (\<lambda>k. k = ''scientist-key'')\<rparr>"

definition event_zero :: project_event where
  "event_zero =
     \<lparr>event_id = ''event-0'', project_id = ''project-1'', seq_no = Some 0,
      event_kind = ProjectMessage, event_str = ''event-0''\<rparr>"

definition event_one :: project_event where
  "event_one =
     \<lparr>event_id = ''event-1'', project_id = ''project-1'', seq_no = Some 1,
      event_kind = ProjectMessage, event_str = ''event-1''\<rparr>"

definition request_event :: project_event where
  "request_event =
     \<lparr>event_id = ''event-r'', project_id = ''project-1'', seq_no = Some 1,
      event_kind = ProjectRequest ''server-1'', event_str = ''event-r''\<rparr>"

text \<open>The notification service of the leader server answers every send with an error.\<close>

definition leader_server :: server where
  "leader_server =
     \<lparr>server_verify_key = ''leader-key'', server_id = ''server-1'',
      network_peers = Map.empty,
      notification_send = (\<lambda>n. Some ''notification could not be sent'')\<rparr>"

definition follower_server :: server where
  "follower_server =
     \<lparr>server_verify_key = ''follower-key'', server_id = ''server-2'',
      network_peers = Map.empty,
      notification_send = (\<lambda>n. None)\<rparr>"

definition scientist_on_leader :: authed_service_context where
  "scientist_on_leader = \<lparr>credentials = ''scientist-key'', server = leader_server\<rparr>"

definition leader_on_leader :: authed_service_context where
  "leader_on_leader = \<lparr>credentials = ''leader-key'', server = leader_server\<rparr>"

definition guest_on_follower :: authed_service_context where
  "guest_on_follower = \<lparr>credentials = ''guest-key'', server = follower_server\<rparr>"

definition empty_log_state :: service_state where
  "empty_log_state =
     \<lparr>stash = [''project-1'' \<mapsto> empty_project],
      notification_calls = [], remote_add_event_calls = []\<rparr>"

definition one_event_state :: service_state where
  "one_event_state =
     \<lparr>stash = [''project-1'' \<mapsto> append_event empty_project event_one],
      notification_calls = [], remote_add_event_calls = []\<rparr>"

text \<open>
  A batch as in the spec's end-to-end scenario: the code of the user \<open>scientist-key\<close>,
  a job and a private result; a second private object whose id shares the prefix
  \<open>abc\<close> with the result; batches with two codes, with a private object and no
  code, and with nothing to synchronise.
\<close>

definition scientist_code :: user_code where
  "scientist_code = \<lparr>user_verify_key = ''scientist-key'', user_code_private = False\<rparr>"

definition code_diff :: object_diff where
  "code_diff =
     \<lparr>object_id = ''c0de0001'', object_type = ''UserCode'', status = ''NEW'',
      low_obj = None, high_obj = Some (UserCode scientist_code)\<rparr>"

definition job_diff :: object_diff where
  "job_diff =
     \<lparr>object_id = ''70b00002'', object_type = ''Job'', status = ''NEW'',
      low_obj = None, high_obj = Some (Job False)\<rparr>"

definition result_diff :: object_diff where
  "result_diff =
     \<lparr>object_id = ''abc10003'', object_type = ''ActionObject'', status = ''NEW'',
      low_obj = None, high_obj = Some (OtherObject True)\<rparr>"

definition log_diff :: object_diff where
  "log_diff =
     \<lparr>object_id = ''abc20004'', object_type = ''SyftLog'', status = ''NEW'',
      low_obj = None, high_obj = Some (OtherObject True)\<rparr>"

definition scenario_batch :: object_diff_batch where
  "scenario_batch = \<lparr>diffs = [code_diff, job_diff, result_diff]\<rparr>"

definition two_codes_batch :: object_diff_batch where
  "two_codes_batch = \<lparr>diffs = [code_diff, code_diff\<lparr>object_id := ''c0de0005''\<rparr>]\<rparr>"

definition ungoverned_batch :: object_diff_batch where
  "ungoverned_batch = \<lparr>diffs = [result_diff]\<rparr>"

definition same_batch :: object_diff_batch where
  "same_batch = \<lparr>diffs = [code_diff\<lparr>status := ''SAME''\<rparr>, job_diff\<lparr>status := ''SAME''\<rparr>]\<rparr>"

text \<open>
  Two batches in which every diff has status \<open>SAME\<close>: one with two codes, one with a
  private object and no code.
\<close>

definition same_two_codes_batch :: object_diff_batch where
  "same_two_codes_batch =
     \<lparr>diffs = [code_diff\<lparr>status := ''SAME''\<rparr>,
               code_diff\<lparr>object_id := ''c0de0005'', status := ''SAME''\<rparr>]\<rparr>"

definition same_ungoverned_batch :: object_diff_batch where
  "same_ungoverned_batch = \<lparr>diffs = [result_diff\<lparr>status := ''SAME''\<rparr>]\<rparr>"

text \<open>The decisions for the scenario batch when the private result is shared, and when it is not.\<close>

definition decisions_shared :: "sync_decision list" where
  "decisions_shared =
     [\<lparr>diff = code_diff, decision = ''low'', new_permissions_lowside = [], mockify = False\<rparr>,
      \<lparr>diff = job_diff, decision = ''low'',
       new_permissions_lowside = [read_permission job_diff scientist_code], mockify = False\<rparr>,
      \<lparr>diff = result_diff, decision = ''low'',
       new_permissions_lowside = [read_permission result_diff scientist_code],
       mockify = False\<rparr>]"

definition decisions_declined :: "sync_decision list" where
  "decisions_declined =
     [\<lparr>diff = code_diff, decision = ''low'', new_permissions_lowside = [], mockify = False\<rparr>,
      \<lparr>diff = job_diff, decision = ''low'',
       new_permissions_lowside = [read_permission job_diff scientist_code], mockify = False\<rparr>,
      \<lparr>diff = result_diff, decision = ''low'', new_permissions_lowside = [], mockify = True\<rparr>]"

section \<open>Properties of the project event log\<close>

lemmas example_defs =
  leader_identity_def empty_project_def event_zero_def event_one_def request_event_def
  leader_server_def follower_server_def scientist_on_leader_def leader_on_leader_def
  guest_on_follower_def empty_log_state_def one_event_state_def

lemmas service_defs =
  stash_get_by_uid_def stash_update_def unwrap_public_message_def validate_project_leader_def
  validate_user_permission_for_project_def validate_project_event_seq_def
  is_project_leader_def check_for_project_request_def append_event_def Let_def

text \<open>
  C1 (as amended). For a project whose log has \<open>N\<close> events and an event whose
  \<open>seq_no\<close> is the integer \<open>n\<close>, \<^verbatim>\<open>validate_project_event_seq\<close> accepts the
  event exactly when \<open>n = N + 1\<close>, or when the log is empty and \<open>n \<le> 0\<close>. It fails with
  "Project events are out of sync" when \<open>n \<le> N\<close> on a non-empty log, and with
  "Project events are out of order!" when \<open>n > N + 1\<close>. On a non-empty log, and for
  every \<open>n \<ge> 1\<close>, exactly one value is legal.
\<close>

theorem validate_seq_accepts_iff:
  assumes "seq_no ev = Some n"
  shows "(validate_project_event_seq ev p = Inr ())
           = (n = int (length (events p)) + 1 \<or> (events p = [] \<and> n \<le> 0))
         \<and> (n \<le> int (length (events p)) \<and> events p \<noteq> []
              \<longrightarrow> validate_project_event_seq ev p
                    = Inl (SyftException ''Project events are out of sync''))
         \<and> (n > int (length (events p)) + 1
              \<longrightarrow> validate_project_event_seq ev p
                    = Inl (SyftException ''Project events are out of order!''))"
  using assms by (auto simp: validate_project_event_seq_def)

theorem validate_seq_accepts_iff_witness:
  "seq_no event_one = Some 1
   \<and> validate_project_event_seq event_one empty_project = Inr ()
   \<and> validate_project_event_seq event_one (append_event empty_project event_one)
       = Inl (SyftException ''Project events are out of sync'')"
  using validate_seq_accepts_iff [of event_one 1 empty_project]
        validate_seq_accepts_iff [of event_one 1 "append_event empty_project event_one"]
  by (simp add: example_defs append_event_def)

text \<open>
  C1 as stated fails on the empty log: an event with \<open>seq_no = 0\<close> is accepted although
  \<open>N + 1 = 1\<close>, because the lower bound is checked only
  \<^verbatim>\<open>and len(project.events) > 0\<close>.
\<close>

theorem validate_seq_zero_counterexample:
  "seq_no event_zero = Some 0 \<and> length (events empty_project) = 0
   \<and> validate_project_event_seq event_zero empty_project = Inr ()"
  by (simp add: validate_project_event_seq_def event_zero_def empty_project_def)

text \<open>
  C2 (as amended). When \<^verbatim>\<open>broadcast_event\<close> runs on a server whose verify key
  differs from the key of the project's \<^verbatim>\<open>state_sync_leader\<close>, the call fails
  with "Only the leader of the project can broadcast events" and leaves the whole state
  as it was: the stored project and its events, no notification, no remote call.
\<close>

theorem broadcast_on_non_leader_server:
  assumes "stash s (project_id ev) = Some p"
      and "verify_key (state_sync_leader p) \<noteq> server_verify_key (server ctx)"
  shows "broadcast_event ctx ev s
           = (Inl (SyftException ''Only the leader of the project can broadcast events''), s)"
  using assms
  by (simp add: broadcast_event_def stash_get_by_uid_def validate_project_leader_def
        unwrap_public_message_def)

theorem broadcast_on_non_leader_server_witness:
  "stash empty_log_state (project_id event_one) = Some empty_project
   \<and> verify_key (state_sync_leader empty_project) \<noteq> server_verify_key (server guest_on_follower)
   \<and> broadcast_event guest_on_follower event_one empty_log_state
       = (Inl (SyftException ''Only the leader of the project can broadcast events''),
          empty_log_state)"
  using broadcast_on_non_leader_server [of empty_log_state event_one empty_project guest_on_follower]
  by (simp add: example_defs)

text \<open>
  C2 as stated compares the caller's verify key with the leader's. The code compares
  \<^verbatim>\<open>context.server.verify_key\<close>: a caller whose credentials differ from the leader
  key, calling on the leader's server, broadcasts successfully and the event is appended
  and stored.
\<close>

theorem broadcast_non_leader_caller_counterexample:
  "credentials scientist_on_leader \<noteq> verify_key (state_sync_leader empty_project)
   \<and> stash empty_log_state (project_id event_one) = Some empty_project
   \<and> fst (broadcast_event scientist_on_leader event_one empty_log_state)
       = Inr (append_event empty_project event_one)
   \<and> map_option events
        (stash (snd (broadcast_event scientist_on_leader event_one empty_log_state))
           ''project-1'')
       = Some [event_one]"
  by (simp add: broadcast_event_def service_defs example_defs)

text \<open>
  C3. \<^verbatim>\<open>sync\<close> fails for a negative \<open>seq_no\<close> and otherwise returns
  \<^verbatim>\<open>events[seq_no:]\<close> of the stored project, whatever the two validators answer:
  their results are never unwrapped. On a follower's server, for a caller without
  permission, both validators return an error and \<^verbatim>\<open>sync\<close> still returns the
  events.
\<close>

theorem sync_skips_failed_checks:
  "validate_project_leader guest_on_follower (append_event empty_project event_one)
     = Inl (SyftException ''Only the project leader can do this operation'')
   \<and> validate_user_permission_for_project guest_on_follower
        (append_event empty_project event_one)
     = Inl (SyftException ''User does not have permission to sync events'')
   \<and> sync guest_on_follower ''project-1'' 0 one_event_state = Inr [event_one]"
  by (simp add: sync_def service_defs example_defs)

lemma sync_slice:
  "stash s pid = Some p \<Longrightarrow> 0 \<le> n \<Longrightarrow> sync ctx pid n s = Inr (drop (nat n) (events p))"
  by (simp add: sync_def stash_get_by_uid_def)

lemma sync_negative:
  "n < 0 \<Longrightarrow> sync ctx pid n s
     = Inl (SyftException ''Input seq_no should be a non negative integer'')"
  by (simp add: sync_def)

text \<open>
  C4. A \<^verbatim>\<open>ProjectRequest\<close> targets this server and the notification service
  answers with an error: \<^verbatim>\<open>check_for_project_request\<close> returns the exception as
  its result, and both \<^verbatim>\<open>add_event\<close> and \<^verbatim>\<open>broadcast_event\<close> succeed.
\<close>

theorem notification_failure_swallowed:
  "fst (check_for_project_request (append_event empty_project request_event)
          request_event leader_on_leader empty_log_state)
     = Inl (SyftException ''notification could not be sent'')
   \<and> fst (add_event leader_on_leader request_event empty_log_state)
     = Inr (append_event empty_project request_event)
   \<and> fst (broadcast_event leader_on_leader request_event empty_log_state)
     = Inr (append_event empty_project request_event)"
  by (simp add: add_event_def broadcast_event_def service_defs example_defs)

section \<open>Properties of state reconciliation\<close>

lemmas sync_example_defs =
  scientist_code_def code_diff_def job_diff_def result_diff_def log_diff_def
  scenario_batch_def two_codes_batch_def ungoverned_batch_def
  same_batch_def same_two_codes_batch_def same_ungoverned_batch_def

lemmas sync_defs =
  get_sync_decisions_for_batch_items_def unpublished_private_high_diffs_def
  user_codes_high_def is_private_high_diff_def is_job_def decide_diff_def
  read_permission_def ask_user_input_permission_def startswith_def
  List.map_filter_def Let_def


lemma decide_loop_Inr:
  "decide_loop uc un sh dec ds acc = Inr r \<Longrightarrow>
     \<exists>r'. r = acc @ r' \<and> length r' = length ds
          \<and> (\<forall>i<length ds. decide_diff uc un sh dec (ds ! i) = Inr (r' ! i))"
proof (induction ds arbitrary: acc r)
  case Nil
  then show ?case by simp
next
  case (Cons d ds)
  from Cons.prems obtain sd where sd: "decide_diff uc un sh dec d = Inr sd"
    and rest: "decide_loop uc un sh dec ds (acc @ [sd]) = Inr r"
    by (auto split: sum.splits)
  from Cons.IH [OF rest] obtain r' where r': "r = (acc @ [sd]) @ r'" "length r' = length ds"
    "\<forall>i<length ds. decide_diff uc un sh dec (ds ! i) = Inr (r' ! i)"
    by blast
  have "\<forall>i<length (d # ds). decide_diff uc un sh dec ((d # ds) ! i) = Inr ((sd # r') ! i)"
    using sd r'(3) by (auto simp: nth_Cons split: nat.splits)
  with r' show ?case by (intro exI [of _ "sd # r'"]) simp
qed

lemma get_sync_decisions_Inr:
  assumes "get_sync_decisions_for_batch_items b dec share t = Inr (sds, t')"
  shows "\<exists>uc sel t1.
           uc = (case user_codes_high b of [] \<Rightarrow> None | c # _ \<Rightarrow> Some c)
         \<and> length (user_codes_high b) \<le> 1
         \<and> (uc = None \<longrightarrow> unpublished_private_high_diffs b = [])
         \<and> (if share then Inr (unpublished_private_high_diffs b, t)
             else ask_user_input_permission uc (unpublished_private_high_diffs b) t)
            = Inr (sel, t')
         \<and> length sds = length (diffs b)
         \<and> (\<forall>i<length (diffs b).
               decide_diff uc (unpublished_private_high_diffs b) sel dec (diffs b ! i)
                 = Inr (sds ! i))"
  using assms
  unfolding get_sync_decisions_for_batch_items_def Let_def
  by (auto split: if_splits sum.splits dest!: decide_loop_Inr)


lemma decide_diff_fields:
  "decide_diff uc un sel dec d = Inr sd \<Longrightarrow> diff sd = d \<and> decision sd = dec"
  by (auto simp: decide_diff_def Let_def split: if_splits option.splits)

lemma user_codes_single:
  "length cs \<le> 1 \<Longrightarrow> (case cs of [] \<Rightarrow> None | c # _ \<Rightarrow> Some c) = Some c \<Longrightarrow> cs = [c]"
  by (cases cs) auto

lemma decide_diff_job:
  "is_job d \<Longrightarrow> decide_diff uc un sel dec d = Inr sd \<Longrightarrow>
     \<exists>c. uc = Some c \<and> new_permissions_lowside sd = [read_permission d c] \<and> mockify sd = False"
  by (cases uc) (auto simp: decide_diff_def)

lemma decide_diff_private_shared:
  "\<not> is_job d \<Longrightarrow> d \<in> set un \<Longrightarrow> d \<in> set sel \<Longrightarrow>
     decide_diff (Some c) un sel dec d = Inr sd \<Longrightarrow>
     new_permissions_lowside sd = [read_permission d c] \<and> mockify sd = False"
  by (auto simp: decide_diff_def)

lemma decide_diff_private_kept:
  "\<not> is_job d \<Longrightarrow> d \<in> set un \<Longrightarrow> d \<notin> set sel \<Longrightarrow>
     decide_diff uc un sel dec d = Inr sd \<Longrightarrow>
     new_permissions_lowside sd = [] \<and> mockify sd = True"
  by (auto simp: decide_diff_def)


lemma get_sync_decisions_InrE:
  assumes "get_sync_decisions_for_batch_items b dec share t = Inr (sds, t')"
  obtains sel where
      "length (user_codes_high b) \<le> 1"
      "(case user_codes_high b of [] \<Rightarrow> None | c # _ \<Rightarrow> Some c) = None
         \<Longrightarrow> unpublished_private_high_diffs b = []"
      "(if share then Inr (unpublished_private_high_diffs b, t)
        else ask_user_input_permission
               (case user_codes_high b of [] \<Rightarrow> None | c # _ \<Rightarrow> Some c)
               (unpublished_private_high_diffs b) t) = Inr (sel, t')"
      "length sds = length (diffs b)"
      "\<And>i. i < length (diffs b) \<Longrightarrow>
         decide_diff (case user_codes_high b of [] \<Rightarrow> None | c # _ \<Rightarrow> Some c)
           (unpublished_private_high_diffs b) sel dec (diffs b ! i) = Inr (sds ! i)"
  using get_sync_decisions_Inr [OF assms] by (elim exE conjE) simp

lemma scenario_shared:
  "get_sync_decisions_for_batch_items scenario_batch ''low'' True ([], [])
     = Inr (decisions_shared, ([], []))"
  by (simp add: sync_defs sync_example_defs decisions_shared_def)

lemma scenario_declined:
  "get_sync_decisions_for_batch_items scenario_batch ''low'' False ([''no''], [])
     = Inr (decisions_declined,
            ([], [SharePreamble ''scientist-key'', QuestionSharePrivateObjs [result_diff]]))"
  by (simp add: sync_defs sync_example_defs decisions_declined_def)

lemma resolve_loop_fails:
  assumes "b \<in> set hs" and "\<not> all_same b"
      and fails: "\<And>d t x. get_sync_decisions_for_batch_items b d share t \<noteq> Inr x"
  shows "isl (resolve_loop dec share hs low high t)"
  using assms(1)
proof (induction hs arbitrary: low high t)
  case Nil
  then show ?case by simp
next
  case (Cons a hs)
  show ?case
  proof (cases "a = b")
    case True
    then show ?thesis
      using assms(2) fails
      by (auto simp: Let_def split: sum.splits option.splits)
  next
    case False
    with Cons.prems have "b \<in> set hs" by simp
    from Cons.IH [OF this] show ?thesis
      by (auto simp: Let_def split: sum.splits option.splits)
  qed
qed

lemma too_many_user_codes:
  "length (user_codes_high b) > 1 \<Longrightarrow>
     get_sync_decisions_for_batch_items b dec share t = Inl (ValueError ''too many user codes'')"
  by (simp add: get_sync_decisions_for_batch_items_def Let_def)

lemma ungoverned_private_objects:
  "user_codes_high b = [] \<Longrightarrow> unpublished_private_high_diffs b \<noteq> [] \<Longrightarrow>
     get_sync_decisions_for_batch_items b dec share t
       = Inl (ValueError ''Found unpublished private objects without user code'')"
  by (simp add: get_sync_decisions_for_batch_items_def Let_def)

lemma resolve_loop_first_error:
  "list_all all_same pre \<Longrightarrow> \<not> all_same b \<Longrightarrow>
     get_sync_decisions_for_batch_items b d share (fst t, snd t @ [BatchRepr b]) = Inl e \<Longrightarrow>
     resolve_loop (Some d) share (pre @ b # post) low high t = Inl e"
  by (induction pre) (auto simp: Let_def)

text \<open>
  C5 (as amended). Resolving a batch raises \<^verbatim>\<open>ValueError("too many user codes")\<close>
  when more than one \<^verbatim>\<open>UserCode\<close> is among its high-side objects, and
  \<^verbatim>\<open>ValueError("Found unpublished private objects without user code")\<close> when it has
  unpublished private high-side diffs and no \<^verbatim>\<open>UserCode\<close>. For a batch in
  which not every diff has status \<open>SAME\<close>, \<^verbatim>\<open>resolve\<close> does not catch the
  error: when such a batch is the first one that is not all \<open>SAME\<close>,
  \<^verbatim>\<open>resolve\<close> raises that very error, and wherever such a batch stands in the
  hierarchies, \<^verbatim>\<open>resolve\<close> ends with an error and returns no resolved states.
\<close>

theorem governing_object_errors_are_fatal:
  "(length (user_codes_high b) > 1 \<longrightarrow>
      get_sync_decisions_for_batch_items b d share t
        = Inl (ValueError ''too many user codes'')
    \<and> (list_all all_same pre \<and> \<not> all_same b \<longrightarrow>
         resolve \<lparr>hierarchies = pre @ b # post\<rparr> (Some d) share t
           = Inl (ValueError ''too many user codes'')))
   \<and> (user_codes_high b = [] \<and> unpublished_private_high_diffs b \<noteq> [] \<longrightarrow>
      get_sync_decisions_for_batch_items b d share t
        = Inl (ValueError ''Found unpublished private objects without user code'')
    \<and> (list_all all_same pre \<and> \<not> all_same b \<longrightarrow>
         resolve \<lparr>hierarchies = pre @ b # post\<rparr> (Some d) share t
           = Inl (ValueError ''Found unpublished private objects without user code'')))
   \<and> ((length (user_codes_high b) > 1
        \<or> (user_codes_high b = [] \<and> unpublished_private_high_diffs b \<noteq> []))
       \<and> b \<in> set (hierarchies state) \<and> \<not> all_same b \<longrightarrow>
         isl (resolve state dec_opt share t))"
proof (intro conjI impI)
  assume "length (user_codes_high b) > 1"
  then show "get_sync_decisions_for_batch_items b d share t
        = Inl (ValueError ''too many user codes'')"
    by (rule too_many_user_codes)
next
  assume "length (user_codes_high b) > 1" and "list_all all_same pre \<and> \<not> all_same b"
  then show "resolve \<lparr>hierarchies = pre @ b # post\<rparr> (Some d) share t
           = Inl (ValueError ''too many user codes'')"
    by (simp add: resolve_def resolve_loop_first_error too_many_user_codes)
next
  assume "user_codes_high b = [] \<and> unpublished_private_high_diffs b \<noteq> []"
  then show "get_sync_decisions_for_batch_items b d share t
        = Inl (ValueError ''Found unpublished private objects without user code'')"
    by (simp add: ungoverned_private_objects)
next
  assume "user_codes_high b = [] \<and> unpublished_private_high_diffs b \<noteq> []"
    and "list_all all_same pre \<and> \<not> all_same b"
  then show "resolve \<lparr>hierarchies = pre @ b # post\<rparr> (Some d) share t
           = Inl (ValueError ''Found unpublished private objects without user code'')"
    by (simp add: resolve_def resolve_loop_first_error ungoverned_private_objects)
next
  assume a: "(length (user_codes_high b) > 1
        \<or> (user_codes_high b = [] \<and> unpublished_private_high_diffs b \<noteq> []))
       \<and> b \<in> set (hierarchies state) \<and> \<not> all_same b"
  then have "\<And>d t x. get_sync_decisions_for_batch_items b d share t \<noteq> Inr x"
    by (auto simp: too_many_user_codes ungoverned_private_objects)
  with a show "isl (resolve state dec_opt share t)"
    unfolding resolve_def by (intro resolve_loop_fails [of b]) auto
qed

theorem governing_object_errors_are_fatal_witness:
  "length (user_codes_high two_codes_batch) > 1
   \<and> list_all all_same [same_batch] \<and> \<not> all_same two_codes_batch
   \<and> get_sync_decisions_for_batch_items two_codes_batch ''low'' False ([], [])
       = Inl (ValueError ''too many user codes'')
   \<and> resolve \<lparr>hierarchies = [same_batch] @ two_codes_batch # [scenario_batch]\<rparr>
         (Some ''low'') False ([], [])
       = Inl (ValueError ''too many user codes'')
   \<and> user_codes_high ungoverned_batch = []
   \<and> unpublished_private_high_diffs ungoverned_batch \<noteq> []
   \<and> get_sync_decisions_for_batch_items ungoverned_batch ''low'' False ([], [])
       = Inl (ValueError ''Found unpublished private objects without user code'')"
proof -
  have h1: "length (user_codes_high two_codes_batch) > 1"
    by (simp add: user_codes_high_def List.map_filter_def sync_example_defs)
  have h2: "list_all all_same [same_batch] \<and> \<not> all_same two_codes_batch"
    by (simp add: all_same_def sync_example_defs)
  have h3: "user_codes_high ungoverned_batch = []
            \<and> unpublished_private_high_diffs ungoverned_batch \<noteq> []"
    by (simp add: user_codes_high_def List.map_filter_def unpublished_private_high_diffs_def
          is_private_high_diff_def sync_example_defs)
  note a = governing_object_errors_are_fatal
             [where b = two_codes_batch and d = "''low''" and share = False
                and t = "([], [])" and pre = "[same_batch]" and post = "[scenario_batch]"]
  note b = governing_object_errors_are_fatal
             [where b = ungoverned_batch and d = "''low''" and share = False
                and t = "([], [])"]
  from a h1 h2 have r1:
    "get_sync_decisions_for_batch_items two_codes_batch ''low'' False ([], [])
       = Inl (ValueError ''too many user codes'')
     \<and> resolve \<lparr>hierarchies = [same_batch] @ two_codes_batch # [scenario_batch]\<rparr>
           (Some ''low'') False ([], [])
         = Inl (ValueError ''too many user codes'')"
    by blast
  from b h3 have r2:
    "get_sync_decisions_for_batch_items ungoverned_batch ''low'' False ([], [])
       = Inl (ValueError ''Found unpublished private objects without user code'')"
    by blast
  from h1 h2 h3 r1 r2 show ?thesis by blast
qed

text \<open>
  C5 as stated fails for a batch in which every diff has status \<open>SAME\<close>:
  \<^verbatim>\<open>resolve\<close> skips it before \<^verbatim>\<open>get_sync_decisions_for_batch_items\<close> is
  called. A batch with two codes and a batch with a private object and no code, both all
  \<open>SAME\<close>, would each fail to resolve, and \<^verbatim>\<open>resolve\<close> returns two empty
  resolved states for them without an error.
\<close>

theorem all_same_governing_error_counterexample:
  "all_same same_two_codes_batch
   \<and> length (user_codes_high same_two_codes_batch) > 1
   \<and> get_sync_decisions_for_batch_items same_two_codes_batch ''low'' False ([], [])
       = Inl (ValueError ''too many user codes'')
   \<and> all_same same_ungoverned_batch
   \<and> user_codes_high same_ungoverned_batch = []
   \<and> unpublished_private_high_diffs same_ungoverned_batch \<noteq> []
   \<and> get_sync_decisions_for_batch_items same_ungoverned_batch ''low'' False ([], [])
       = Inl (ValueError ''Found unpublished private objects without user code'')
   \<and> resolve \<lparr>hierarchies = [same_two_codes_batch, same_ungoverned_batch]\<rparr>
         (Some ''low'') False ([], [])
       = Inr (ResolvedSyncState ''low'', ResolvedSyncState ''high'', ([], []))"
  by (simp add: resolve_def all_same_def sync_defs sync_example_defs)

text \<open>
  C6. In a resolved batch, take a diff whose high-side object exists, has private sync
  attributes and is not a \<^verbatim>\<open>Job\<close>. The batch has exactly one governing
  \<^verbatim>\<open>UserCode\<close> \<open>c\<close>, and with \<open>sel\<close> the diffs selected for sharing (all
  unpublished private diffs under \<^verbatim>\<open>share_private_objects\<close>, the answer of
  \<^verbatim>\<open>ask_user_input_permission\<close> otherwise): if the diff is selected, its decision
  has \<open>mockify = False\<close> and exactly one \<open>READ\<close> permission on the diff's
  \<open>object_id\<close> for \<open>c\<close>'s \<open>user_verify_key\<close>; if it is not selected, its decision
  has \<open>mockify = True\<close> and no new permission.
\<close>

theorem private_diff_decision:
  assumes "get_sync_decisions_for_batch_items b dec share t = Inr (sds, t')"
      and "i < length (diffs b)"
      and "is_private_high_diff (diffs b ! i)"
      and "\<not> is_job (diffs b ! i)"
  shows "\<exists>c sel. user_codes_high b = [c]
           \<and> (if share then Inr (unpublished_private_high_diffs b, t)
               else ask_user_input_permission (Some c) (unpublished_private_high_diffs b) t)
              = Inr (sel, t')
           \<and> (share \<longrightarrow> diffs b ! i \<in> set sel)
           \<and> (diffs b ! i \<in> set sel \<longrightarrow>
                 mockify (sds ! i) = False
               \<and> new_permissions_lowside (sds ! i)
                   = [\<lparr>permission_uid = object_id (diffs b ! i), permission = READ,
                       permission_credentials = user_verify_key c\<rparr>])
           \<and> (diffs b ! i \<notin> set sel \<longrightarrow>
                 mockify (sds ! i) = True \<and> new_permissions_lowside (sds ! i) = [])"
proof -
  let ?d = "diffs b ! i"
  let ?un = "unpublished_private_high_diffs b"
  let ?uc = "case user_codes_high b of [] \<Rightarrow> None | c # _ \<Rightarrow> Some c"
  from assms(1) show ?thesis
  proof (rule get_sync_decisions_InrE)
  fix sel
  assume len: "length (user_codes_high b) \<le> 1"
    and gov: "?uc = None \<Longrightarrow> unpublished_private_high_diffs b = []"
    and sel: "(if share then Inr (unpublished_private_high_diffs b, t)
              else ask_user_input_permission ?uc (unpublished_private_high_diffs b) t)
                = Inr (sel, t')"
    and lensds: "length sds = length (diffs b)"
    and dec: "\<And>i. i < length (diffs b) \<Longrightarrow>
                decide_diff ?uc (unpublished_private_high_diffs b) sel dec (diffs b ! i)
                  = Inr (sds ! i)"
  have mem: "?d \<in> set ?un"
    using assms(2,3) by (simp add: unpublished_private_high_diffs_def)
  have "?uc \<noteq> None"
  proof
    assume "?uc = None"
    then have "?un = []" by (rule gov)
    with mem show False by simp
  qed
  then obtain c where c: "?uc = Some c" by (cases ?uc) simp_all
  have codes: "user_codes_high b = [c]"
    by (rule user_codes_single [OF len c])
  have d: "decide_diff (Some c) ?un sel dec ?d = Inr (sds ! i)"
    using dec [OF assms(2)] by (simp only: c)
  have sel': "(if share then Inr (?un, t)
       else ask_user_input_permission (Some c) ?un t) = Inr (sel, t')"
    using sel by (simp only: c)
  have auto_share: "share \<longrightarrow> ?d \<in> set sel"
  proof
    assume share
    with sel' have "sel = ?un" by simp
    with mem show "?d \<in> set sel" by simp
  qed
  have shared: "?d \<in> set sel \<longrightarrow> mockify (sds ! i) = False
      \<and> new_permissions_lowside (sds ! i)
          = [\<lparr>permission_uid = object_id ?d, permission = READ,
              permission_credentials = user_verify_key c\<rparr>]"
  proof
    assume "?d \<in> set sel"
    from decide_diff_private_shared [OF assms(4) mem this d]
    show "mockify (sds ! i) = False
      \<and> new_permissions_lowside (sds ! i)
          = [\<lparr>permission_uid = object_id ?d, permission = READ,
              permission_credentials = user_verify_key c\<rparr>]"
      by (simp only: read_permission_def)
  qed
  have kept: "?d \<notin> set sel \<longrightarrow> mockify (sds ! i) = True \<and> new_permissions_lowside (sds ! i) = []"
  proof
    assume "?d \<notin> set sel"
    from decide_diff_private_kept [OF assms(4) mem this d]
    show "mockify (sds ! i) = True \<and> new_permissions_lowside (sds ! i) = []"
      by simp
  qed
  show ?thesis
    by (intro exI [of _ c] exI [of _ sel] conjI codes sel' auto_share shared kept)
qed
qed

theorem private_diff_decision_witness:
  "get_sync_decisions_for_batch_items scenario_batch ''low'' True ([], [])
     = Inr (decisions_shared, ([], []))
   \<and> 2 < length (diffs scenario_batch)
   \<and> is_private_high_diff (diffs scenario_batch ! 2)
   \<and> \<not> is_job (diffs scenario_batch ! 2)
   \<and> mockify (decisions_shared ! 2) = False
   \<and> get_sync_decisions_for_batch_items scenario_batch ''low'' False ([''no''], [])
     = Inr (decisions_declined,
            ([], [SharePreamble ''scientist-key'', QuestionSharePrivateObjs [result_diff]]))
   \<and> mockify (decisions_declined ! 2) = True
   \<and> new_permissions_lowside (decisions_declined ! 2) = []"
proof -
  have h2: "2 < length (diffs scenario_batch)" by (simp add: scenario_batch_def)
  have h3: "is_private_high_diff (diffs scenario_batch ! 2)"
    by (simp add: scenario_batch_def result_diff_def is_private_high_diff_def)
  have h4: "\<not> is_job (diffs scenario_batch ! 2)"
    by (simp add: scenario_batch_def result_diff_def is_job_def)
  have m: "mockify (decisions_shared ! 2) = False"
    using private_diff_decision [OF scenario_shared h2 h3 h4] by blast
  have k: "mockify (decisions_declined ! 2) = True
           \<and> new_permissions_lowside (decisions_declined ! 2) = []"
    by (simp add: decisions_declined_def)
  from scenario_shared h2 h3 h4 m scenario_declined k show ?thesis by blast
qed

text \<open>
  C7. In a resolved batch, the decision of every diff whose high-side object is a
  \<^verbatim>\<open>Job\<close> carries exactly one \<open>READ\<close> permission, on the diff's \<open>object_id\<close>
  for the \<open>user_verify_key\<close> of the batch's one \<^verbatim>\<open>UserCode\<close>, and
  \<open>mockify = False\<close>, whatever \<^verbatim>\<open>share_private_objects\<close> and the terminal
  input are.
\<close>

theorem job_diff_always_granted:
  assumes "get_sync_decisions_for_batch_items b dec share t = Inr (sds, t')"
      and "i < length (diffs b)"
      and "is_job (diffs b ! i)"
  shows "\<exists>c. user_codes_high b = [c]
           \<and> new_permissions_lowside (sds ! i)
               = [\<lparr>permission_uid = object_id (diffs b ! i), permission = READ,
                   permission_credentials = user_verify_key c\<rparr>]
           \<and> mockify (sds ! i) = False"
proof -
  let ?uc = "case user_codes_high b of [] \<Rightarrow> None | c # _ \<Rightarrow> Some c"
  from assms(1) show ?thesis
  proof (rule get_sync_decisions_InrE)
  fix sel
  assume len: "length (user_codes_high b) \<le> 1"
    and gov: "?uc = None \<Longrightarrow> unpublished_private_high_diffs b = []"
    and sel: "(if share then Inr (unpublished_private_high_diffs b, t)
              else ask_user_input_permission ?uc (unpublished_private_high_diffs b) t)
                = Inr (sel, t')"
    and lensds: "length sds = length (diffs b)"
    and dec: "\<And>i. i < length (diffs b) \<Longrightarrow>
                decide_diff ?uc (unpublished_private_high_diffs b) sel dec (diffs b ! i)
                  = Inr (sds ! i)"
  have d: "decide_diff ?uc (unpublished_private_high_diffs b) sel dec (diffs b ! i)
      = Inr (sds ! i)"
    by (rule dec [OF assms(2)])
  from decide_diff_job [OF assms(3) d] obtain c where c: "?uc = Some c"
    and p: "new_permissions_lowside (sds ! i) = [read_permission (diffs b ! i) c]"
    and m: "mockify (sds ! i) = False"
    by (elim exE conjE)
  have codes: "user_codes_high b = [c]"
    by (rule user_codes_single [OF len c])
  show ?thesis
  proof (intro exI conjI)
    show "user_codes_high b = [c]" by (rule codes)
    show "new_permissions_lowside (sds ! i)
            = [\<lparr>permission_uid = object_id (diffs b ! i), permission = READ,
                permission_credentials = user_verify_key c\<rparr>]"
      using p by (simp only: read_permission_def)
    show "mockify (sds ! i) = False" by (rule m)
  qed
qed
qed

theorem job_diff_always_granted_witness:
  "get_sync_decisions_for_batch_items scenario_batch ''low'' False ([''no''], [])
     = Inr (decisions_declined,
            ([], [SharePreamble ''scientist-key'', QuestionSharePrivateObjs [result_diff]]))
   \<and> 1 < length (diffs scenario_batch)
   \<and> is_job (diffs scenario_batch ! 1)
   \<and> mockify (decisions_declined ! 1) = False
   \<and> length (new_permissions_lowside (decisions_declined ! 1)) = 1"
proof -
  have h2: "1 < length (diffs scenario_batch)" by (simp add: scenario_batch_def)
  have h3: "is_job (diffs scenario_batch ! 1)"
    by (simp add: scenario_batch_def job_diff_def is_job_def)
  have m: "mockify (decisions_declined ! 1) = False
           \<and> length (new_permissions_lowside (decisions_declined ! 1)) = 1"
    using job_diff_always_granted [OF scenario_declined h2 h3] by auto
  from scenario_declined h2 h3 m show ?thesis by blast
qed

lemma resolve_loop_skip:
  "all_same b \<Longrightarrow>
     resolve_loop dec share (pre @ b # post) low high t
       = resolve_loop dec share (pre @ post) low high t"
  by (induction pre arbitrary: low high t)
     (auto simp: Let_def split: sum.splits prod.splits option.splits)

lemma resolve_loop_all_same:
  "list_all all_same hs \<Longrightarrow> resolve_loop dec share hs low high t = Inr (low, high, t)"
  by (induction hs) auto

text \<open>
  C8. A batch whose diffs all have status \<open>SAME\<close> is skipped by \<^verbatim>\<open>resolve\<close>:
  the result, both resolved states and the terminal (what was printed, what was read)
  are the same as without the batch. When every batch is all \<open>SAME\<close>, both resolved
  states are empty and the terminal is untouched.
\<close>

theorem all_same_batches_skipped:
  "(all_same b \<longrightarrow>
      resolve \<lparr>hierarchies = pre @ b # post\<rparr> dec share t
        = resolve \<lparr>hierarchies = pre @ post\<rparr> dec share t)
   \<and> (list_all all_same (hierarchies state) \<longrightarrow>
        resolve state dec share t
          = Inr (ResolvedSyncState ''low'', ResolvedSyncState ''high'', t))"
  by (simp add: resolve_def resolve_loop_skip resolve_loop_all_same)

theorem all_same_batches_skipped_witness:
  "all_same same_batch
   \<and> list_all all_same (hierarchies \<lparr>hierarchies = [same_batch, same_batch]\<rparr>)
   \<and> resolve \<lparr>hierarchies = [same_batch, same_batch]\<rparr> None False ([''high''], [])
       = Inr (ResolvedSyncState ''low'', ResolvedSyncState ''high'', ([''high''], []))"
proof -
  have h: "all_same same_batch" by (simp add: all_same_def sync_example_defs)
  then have hs: "list_all all_same (hierarchies \<lparr>hierarchies = [same_batch, same_batch]\<rparr>)"
    by simp
  from all_same_batches_skipped
         [where state = "\<lparr>hierarchies = [same_batch, same_batch]\<rparr>" and dec = None
            and share = False and t = "([''high''], [])"] hs
  have "resolve \<lparr>hierarchies = [same_batch, same_batch]\<rparr> None False ([''high''], [])
       = Inr (ResolvedSyncState ''low'', ResolvedSyncState ''high'', ([''high''], []))"
    by blast
  with h hs show ?thesis by blast
qed

text \<open>
  C9 (as amended). In the sharing loop, an input other than \<open>no\<close> of at least three
  characters that is a prefix of more than one remaining id ends the loop: it returns the
  diffs selected so far, reads nothing more and shares none of the candidates. An input
  of at least three characters that matches no remaining id, and an input shorter than
  three characters, leave the remaining and the selected diffs as they are and ask again.
  Neither raises an error.
\<close>

theorem ask_loop_ambiguous_or_invalid:
  assumes "remaining \<noteq> []" and "res \<noteq> ''no''"
  shows "(3 \<le> length res
            \<and> length (filter (\<lambda>d. startswith (object_id d) res) remaining) > 1 \<longrightarrow>
          ask_loop uvk remaining to_share (res # inp, out)
            = Inr (to_share,
                   (inp, out @ [QuestionSharePrivateObjs remaining, MultipleMatches])))
       \<and> (3 \<le> length res
            \<and> filter (\<lambda>d. startswith (object_id d) res) remaining = [] \<longrightarrow>
          ask_loop uvk remaining to_share (res # inp, out)
            = ask_loop uvk remaining to_share
                (inp, out @ [QuestionSharePrivateObjs remaining, InvalidInputNoMatch]))
       \<and> (length res < 3 \<longrightarrow>
          ask_loop uvk remaining to_share (res # inp, out)
            = ask_loop uvk remaining to_share
                (inp, out @ [QuestionSharePrivateObjs remaining, InvalidInputShort]))"
proof (cases remaining)
  case Nil
  with assms(1) show ?thesis by simp
next
  case (Cons r rs)
  show ?thesis
    unfolding Cons using assms(2)
    by (auto simp: Let_def split: list.splits)
qed

theorem ask_loop_ambiguous_or_invalid_witness:
  "[result_diff, log_diff] \<noteq> [] \<and> ''abc'' \<noteq> ''no''
   \<and> 3 \<le> length ''abc''
   \<and> length (filter (\<lambda>d. startswith (object_id d) ''abc'') [result_diff, log_diff]) > 1
   \<and> ask_loop ''scientist-key'' [result_diff, log_diff] [] ([''abc'', ''abc1''], [])
       = Inr ([], ([''abc1''],
                    [QuestionSharePrivateObjs [result_diff, log_diff], MultipleMatches]))"
proof -
  have h1: "[result_diff, log_diff] \<noteq> []" by simp
  have h2: "''abc'' \<noteq> ''no''" by simp
  have h3: "3 \<le> length ''abc''
      \<and> length (filter (\<lambda>d. startswith (object_id d) ''abc'') [result_diff, log_diff]) > 1"
    by (simp add: startswith_def result_diff_def log_diff_def)
  from ask_loop_ambiguous_or_invalid
         [OF h1 h2, where uvk = "''scientist-key''" and to_share = "[]"
            and inp = "[''abc1'']" and out = "[]"] h3
  have "ask_loop ''scientist-key'' [result_diff, log_diff] [] ([''abc'', ''abc1''], [])
       = Inr ([], ([''abc1''],
                    [] @ [QuestionSharePrivateObjs [result_diff, log_diff], MultipleMatches]))"
    by blast
  with h1 h2 h3 show ?thesis by simp
qed

text \<open>
  C9 as stated fails: with two remaining candidates whose ids both start with
  \<open>abc\<close>, the input \<open>abc\<close> ends the loop with nothing selected. The next lines
  are never read; had the loop asked again, they would have selected the first
  candidate.
\<close>

theorem ambiguous_prefix_counterexample:
  "ask_user_input_permission (Some scientist_code) [result_diff, log_diff]
     ([''abc'', ''abc1'', ''no''], [])
   = Inr ([], ([''abc1'', ''no''],
               [SharePreamble ''scientist-key'',
                QuestionSharePrivateObjs [result_diff, log_diff], MultipleMatches]))
   \<and> map_sum id fst
        (ask_user_input_permission (Some scientist_code) [result_diff, log_diff]
           ([''abc1'', ''no''], []))
     = Inr [result_diff]"
  by (simp add: ask_user_input_permission_def startswith_def sync_example_defs)

text \<open>
  C10. A batch that resolves without error yields one decision per diff, in the order
  of \<^verbatim>\<open>batch.diffs\<close>; the decision at position \<open>i\<close> references the diff at
  position \<open>i\<close> and carries the supplied side.
\<close>

theorem decisions_follow_diffs:
  assumes "get_sync_decisions_for_batch_items b dec share t = Inr (sds, t')"
  shows "length sds = length (diffs b)
         \<and> (\<forall>i<length (diffs b). diff (sds ! i) = diffs b ! i \<and> decision (sds ! i) = dec)"
  using assms
proof (rule get_sync_decisions_InrE)
  fix sel
  assume len: "length sds = length (diffs b)"
    and dec: "\<And>i. i < length (diffs b) \<Longrightarrow>
      decide_diff (case user_codes_high b of [] \<Rightarrow> None | c # _ \<Rightarrow> Some c)
        (unpublished_private_high_diffs b) sel dec (diffs b ! i) = Inr (sds ! i)"
  show ?thesis
  proof (intro conjI allI impI)
    show "length sds = length (diffs b)" by (rule len)
  next
    fix i assume "i < length (diffs b)"
    from decide_diff_fields [OF dec [OF this]]
    show "diff (sds ! i) = diffs b ! i" by (rule conjunct1)
  next
    fix i assume "i < length (diffs b)"
    from decide_diff_fields [OF dec [OF this]]
    show "decision (sds ! i) = dec" by (rule conjunct2)
  qed
qed

theorem decisions_follow_diffs_witness:
  "get_sync_decisions_for_batch_items scenario_batch ''low'' True ([], [])
     = Inr (decisions_shared, ([], []))
   \<and> length decisions_shared = length (diffs scenario_batch)
   \<and> diff (decisions_shared ! 0) = diffs scenario_batch ! 0
   \<and> decision (decisions_shared ! 0) = ''low''"
proof -
  have "0 < length (diffs scenario_batch)" by (simp add: scenario_batch_def)
  with decisions_follow_diffs [OF scenario_shared]
  have "length decisions_shared = length (diffs scenario_batch)
   \<and> diff (decisions_shared ! 0) = diffs scenario_batch ! 0
   \<and> decision (decisions_shared ! 0) = ''low''"
    by blast
  with scenario_shared show ?thesis by blast
qed

end
